theory Spec2Isabelle
  imports Complex_Main
begin

section \<open>Numerical primitives used by the notebooks\<close>

text \<open>
  The notebooks compute with numpy arrays of 64-bit floats.  An array is modelled as a
  \<open>real list\<close>.  Where a cell applies one rounded operation to each element, or adds
  and multiplies numbers of like size, a float is modelled as the real number it stands
  for.  The internal attenuation factor subtracts two nearly equal numbers, where the
  rounding decides the result; its three operations round to binary64 explicitly.

  numpy does not raise on a division by zero: \<open>0.0 / 0.0\<close> is \<open>nan\<close> (floating-point
  error ``invalid value''), \<open>x / 0.0\<close> with \<open>x \<noteq> 0\<close> is \<open>\<plusminus>inf\<close> (``divide by zero''),
  and a result too large for a float is \<open>\<plusminus>inf\<close> (``overflow''), each with a
  RuntimeWarning.  None is a real number; the model returns them as errors.  Two
  arrays whose shapes cannot be broadcast together raise a ValueError.
\<close>

datatype np_error = InvalidValue | DivideByZero | Overflow | ShapeMismatch

text \<open>
  Rounding to binary64: 53 significant bits, to the nearest float, ties to the even
  one.  \<open>rne\<close> rounds to the nearest integer, ties to even; \<open>ulp_exponent x\<close> is the
  exponent of the last significant bit of the floats around \<open>x\<close>, never below \<open>-1074\<close>
  (gradual underflow, which numpy does not report); a rounded magnitude of \<open>2^1024\<close> or
  more overflows.
\<close>

definition rne :: "real \<Rightarrow> int" where
  "rne x =
     (let f = \<lfloor>x\<rfloor>; d = x - of_int f
      in if d < 1 / 2 then f else if 1 / 2 < d then f + 1 else if even f then f else f + 1)"

definition ulp_exponent :: "real \<Rightarrow> int" where
  "ulp_exponent x = max \<lfloor>log 2 \<bar>x\<bar>\<rfloor> (- 1022) - 52"

definition float64 :: "real \<Rightarrow> np_error + real" where
  "float64 x =
     (if x = 0 then Inr 0
      else let q = 2 powr real_of_int (ulp_exponent x); r = of_int (rne (x / q)) * q
           in if 2 ^ 1024 \<le> \<bar>r\<bar> then Inl Overflow else Inr r)"

text \<open>
  The rounded operations of the internal attenuation factor.  \<open>np.exp\<close> is taken to
  return the float nearest to the exact exponential.
\<close>

definition np_exp :: "real \<Rightarrow> np_error + real" where
  "np_exp x = float64 (exp x)"

definition np_subtract :: "real \<Rightarrow> real \<Rightarrow> np_error + real" where
  "np_subtract x y = float64 (x - y)"

definition np_true_divide :: "real \<Rightarrow> real \<Rightarrow> np_error + real" where
  "np_true_divide x y =
     (if y = 0 then (if x = 0 then Inl InvalidValue else Inl DivideByZero)
      else float64 (x / y))"

text \<open>
  \<open>np.logspace(start, stop, num=50)\<close>: \<open>num\<close> samples \<open>10 ** y\<close>, with \<open>y\<close> evenly spaced
  from \<open>start\<close> to \<open>stop\<close> inclusive (step \<open>(stop - start) / (num - 1)\<close>).
\<close>

definition logspace :: "real \<Rightarrow> real \<Rightarrow> nat \<Rightarrow> real list" where
  "logspace start stop num =
     map (\<lambda>i. 10 powr (start + real i * ((stop - start) / real (num - 1)))) [0..<num]"

text \<open>
  Element-wise binary operations on one-dimensional arrays, with numpy's broadcasting:
  equal lengths combine position by position, an array of length one is stretched to
  the other's length, any other pair of lengths is a shape mismatch.
\<close>

definition np_broadcast ::
  "(real \<Rightarrow> real \<Rightarrow> real) \<Rightarrow> real list \<Rightarrow> real list \<Rightarrow> np_error + real list" where
  "np_broadcast f xs ys =
     (if length xs = length ys then Inr (map2 f xs ys)
      else if length xs = 1 then Inr (map (f (hd xs)) ys)
      else if length ys = 1 then Inr (map (\<lambda>x. f x (hd ys)) xs)
      else Inl ShapeMismatch)"

definition np_add :: "real list \<Rightarrow> real list \<Rightarrow> np_error + real list" where
  "np_add = np_broadcast (+)"

definition np_multiply :: "real list \<Rightarrow> real list \<Rightarrow> np_error + real list" where
  "np_multiply = np_broadcast (*)"




section \<open>Attenuation factors (tutorial 5, section 5.3)\<close>

text \<open>
  Section 5.3 of the absorption tutorial states the two attenuation factors,
  \<open>exp(-\<tau>)\<close> for photon fields external to the blob and \<open>(1 - exp(-\<tau>)) / \<tau>\<close> for
  photon fields internal to it, names the library methods that return them
  (\<open>Absorption.absorption\<close> and \<open>Absorption.absorption_homogeneous\<close>) and evaluates both
  formulas itself:
  \<^verbatim>\<open>
  taus=np.logspace(-1,1)
  plt.loglog(taus, np.exp(-taus), label="external")
  plt.loglog(taus, (1-np.exp(-taus))/taus, label="internal")
  \<close>
  The bodies of the two methods are library code, which the notebooks only call.  The
  definitions are the two expressions above, as functions of one optical depth, under
  the names of the methods the tutorial documents them for.
\<close>

definition absorption :: "real \<Rightarrow> real" where
  "absorption tau = exp (- tau)"


definition absorption_homogeneous :: "real \<Rightarrow> np_error + real" where
  "absorption_homogeneous tau =
     (case np_exp (- tau) of
        Inl e \<Rightarrow> Inl e
      | Inr y \<Rightarrow>
          (case np_subtract 1 y of
             Inl e \<Rightarrow> Inl e
           | Inr d \<Rightarrow> np_true_divide d tau))"

definition taus :: "real list" where
  "taus = logspace (- 1) 1 50"

definition external_curve :: "real list" where
  "external_curve = map absorption taus"

text \<open>
  The internal attenuation of the blob's synchrotron field,
  \<^verbatim>\<open>abs_int = abs_synch.absorption_homogeneous(nu)\<close>, applies the internal factor to
  each optical depth of the array \<open>abs_synch.tau(nu)\<close>, which the library computes.
\<close>

definition abs_int :: "real list \<Rightarrow> (np_error + real) list" where
  "abs_int tau_synch = map absorption_homogeneous tau_synch"

section \<open>Combining several external photon fields (tutorial 5, sections 5.1 and 5.3)\<close>

text \<open>
  The opacities of the three line shells and of the dust torus, each an array over the
  same frequency grid, are added,
  \<^verbatim>\<open>
  tau_ext = tau_H_beta + tau_Ly_alpha + tau_H_alpha + tau_dt
  \<close>
  and the attenuation factors of the same four fields are multiplied,
  \<^verbatim>\<open>
  # for the external absorption we multiply all the absorption factors
  # (we are summing the taus)
  abs_ext = (
      abs_H_beta.absorption(nu)
      * abs_Ly_alpha.absorption(nu)
      * abs_H_alpha.absorption(nu)
      * abs_dt.absorption(nu)
  )
  \<close>
  Python evaluates both chains from the left.  The model takes the first array and the
  list of the remaining ones, so the chain may have any positive number of fields; the
  arrays are the per-field opacities \<open>abs_X.tau(nu)\<close>, which the library computes.
\<close>

fun add_all :: "real list \<Rightarrow> real list list \<Rightarrow> np_error + real list" where
  "add_all acc [] = Inr acc"
| "add_all acc (t # ts) =
     (case np_add acc t of Inl e \<Rightarrow> Inl e | Inr acc' \<Rightarrow> add_all acc' ts)"

fun multiply_all :: "real list \<Rightarrow> real list list \<Rightarrow> np_error + real list" where
  "multiply_all acc [] = Inr acc"
| "multiply_all acc (a # as) =
     (case np_multiply acc a of Inl e \<Rightarrow> Inl e | Inr acc' \<Rightarrow> multiply_all acc' as)"

definition tau_ext :: "real list \<Rightarrow> real list list \<Rightarrow> np_error + real list" where
  "tau_ext tau_first tau_rest = add_all tau_first tau_rest"

definition abs_ext :: "real list \<Rightarrow> real list list \<Rightarrow> np_error + real list" where
  "abs_ext tau_first tau_rest =
     multiply_all (map absorption tau_first) (map (map absorption) tau_rest)"

section \<open>The table of emission lines (tutorial 5, section 5.1)\<close>

text \<open>
  The notebook reads the shared table \<open>lines_dictionary\<close> by line name and scales the
  \<open>H\<beta>\<close> shell with the two ratios of an entry:
  \<^verbatim>\<open>
  Ly_alpha = lines_dictionary["Lyalpha"]
  # each dictionary contains the line wavelenght and its radius and luminosity scale to the Hbeta line
  R_Ly_alpha = R_H_beta * Ly_alpha["R_Hbeta_ratio"]
  L_Ly_alpha = L_H_beta * Ly_alpha["L_Hbeta_ratio"]
  Ly_alpha_blr = SphericalShellBLR(L_Ly_alpha, 1, "Lyalpha", R_Ly_alpha)
  \<close>
  The table is a Python dictionary from line names to entries; its contents are data
  of the library and are a parameter here.  Indexing a dictionary with a key it does
  not hold raises KeyError.  The table is shared by every caller, so each operation
  takes it and hands it back next to its result.
\<close>

record line_entry =
  wavelength :: real
  R_Hbeta_ratio :: real
  L_Hbeta_ratio :: real

type_synonym lines_table = "string \<rightharpoonup> line_entry"

datatype py_error = KeyError string

definition getitem :: "string \<Rightarrow> lines_table \<Rightarrow> (py_error + line_entry) \<times> lines_table" where
  "getitem name lines_dictionary =
     ((case lines_dictionary name of None \<Rightarrow> Inl (KeyError name) | Some entry \<Rightarrow> Inr entry),
      lines_dictionary)"

record spherical_shell_blr =
  L_disk :: real
  xi_line :: real
  line :: string
  lambda_line :: real
  R_line :: real

text \<open>
  Modelled from the spec: the constructor \<open>SphericalShellBLR(L_disk, xi_line, line, R_line)\<close>,
  a class of the agnpy library that the notebooks only call.  The spec gives a line
  region the attributes reprocessed luminosity fraction, line identity and shell
  radius (with the luminosity of the disk it reprocesses), looks the named line up in
  the shared table, and lets an unknown name fail immediately with the lookup error.
\<close>

definition SphericalShellBLR ::
  "real \<Rightarrow> real \<Rightarrow> string \<Rightarrow> real \<Rightarrow> lines_table
   \<Rightarrow> (py_error + spherical_shell_blr) \<times> lines_table" where
  "SphericalShellBLR L xi name R lines_dictionary =
     (case getitem name lines_dictionary of
        (Inl e, d) \<Rightarrow> (Inl e, d)
      | (Inr entry, d) \<Rightarrow>
          (Inr \<lparr>L_disk = L, xi_line = xi, line = name,
                lambda_line = wavelength entry, R_line = R\<rparr>, d))"

text \<open>The notebook's derivation of a shell from the \<open>H\<beta>\<close> shell, for any line name.\<close>

definition shell_from_H_beta ::
  "real \<Rightarrow> real \<Rightarrow> string \<Rightarrow> lines_table
   \<Rightarrow> (py_error + spherical_shell_blr) \<times> lines_table" where
  "shell_from_H_beta L_H_beta R_H_beta name lines_dictionary =
     (case getitem name lines_dictionary of
        (Inl e, d) \<Rightarrow> (Inl e, d)
      | (Inr entry, d) \<Rightarrow>
          SphericalShellBLR (L_H_beta * L_Hbeta_ratio entry) 1 name
            (R_H_beta * R_Hbeta_ratio entry) d)"

text \<open>
  A table with one entry, used to exercise the lookup: the reference line \<open>H\<beta>\<close>,
  whose radius and luminosity ratios to itself are \<open>1\<close>.
\<close>

definition example_lines :: lines_table where
  "example_lines = [''Hbeta'' \<mapsto> \<lparr>wavelength = 4861, R_Hbeta_ratio = 1, L_Hbeta_ratio = 1\<rparr>]"

section \<open>Particle distributions (tutorial 1, section 1.1)\<close>

text \<open>
  Tutorial 1 describes a distribution as an analytic function of the Lorentz factor
  times a Heaviside function of the range; for the simple power law
  \<^verbatim>\<open>n(gamma) = k gamma^{-p} H(gamma; gamma_min, gamma_max)\<close>, where ``the Heaviside
  function ensures null values outside the range''.  It builds distributions with
  \<^verbatim>\<open>
  n_p = PowerLaw(k=0.1 * u.Unit("cm-3"), p=2.3, gamma_min=10, gamma_max=1e6, mass=m_p)
  \<close>
  and evaluates them on arrays, \<open>n_1(gamma)\<close>.  The classes are library code.  A
  distribution is its analytic form (whichever variant selected it), its range and the
  particle mass; \<open>PowerLaw\<close> is the one variant whose form the tutorial writes out.
\<close>

record ParticleDistribution =
  form :: "real \<Rightarrow> real"
  gamma_min :: real
  gamma_max :: real
  mass :: real

definition PowerLaw :: "real \<Rightarrow> real \<Rightarrow> real \<Rightarrow> real \<Rightarrow> real \<Rightarrow> ParticleDistribution" where
  "PowerLaw k p gmin gmax m =
     \<lparr>form = (\<lambda>\<gamma>. k * \<gamma> powr (- p)), gamma_min = gmin, gamma_max = gmax, mass = m\<rparr>"

text \<open>
  Modelled from the spec: evaluating a distribution on a sequence of Lorentz factors
  (the call \<open>n(gamma)\<close>, implemented in the agnpy library).  The spec's contract: ``given
  a sequence of \<open>\<gamma>\<close> values, returns the corresponding density values using the selected
  analytic form, zero outside \<open>[\<gamma>_min, \<gamma>_max]\<close>''.
\<close>

definition evaluate :: "ParticleDistribution \<Rightarrow> real list \<Rightarrow> real list" where
  "evaluate n gammas =
     map (\<lambda>\<gamma>. if gamma_min n \<le> \<gamma> \<and> \<gamma> \<le> gamma_max n then form n \<gamma> else 0) gammas"










section \<open>Bounds on the exponential\<close>

lemma exp_minus_one_bounds:
  "367879 / 1000000 < exp (- 1 :: real)" "exp (- 1 :: real) < 367880 / 1000000"
proof -
  obtain t :: real where t: "\<bar>t\<bar> \<le> \<bar>- 1\<bar>"
    and e: "exp (- 1 :: real) = (\<Sum>m<12. (- 1) ^ m / fact m) + (exp t / fact 12) * (- 1) ^ 12"
    using Maclaurin_exp_le [of "- 1" 12] by blast
  have s: "(\<Sum>m<12. (- 1 :: real) ^ m / fact m) = 14684570 / 39916800"
    by (simp add: eval_nat_numeral fact_numeral)
  have "exp t \<le> exp 1" using t by simp
  then have u: "exp t \<le> 3" using exp_le by linarith
  have l: "0 < exp t" by simp
  have f: "fact 12 = (479001600 :: real)" by (simp add: eval_nat_numeral)
  have v: "exp (- 1 :: real) = 14684570 / 39916800 + exp t / 479001600" using e s f by simp
  show "367879 / 1000000 < exp (- 1 :: real)" using v l by linarith
  show "exp (- 1 :: real) < 367880 / 1000000" using v u by linarith
qed

lemma exp_minus_half_bounds:
  "606530 / 1000000 < exp (- (1 / 2) :: real)" "exp (- (1 / 2) :: real) < 606531 / 1000000"
proof -
  obtain t :: real where t: "\<bar>t\<bar> \<le> \<bar>- (1 / 2)\<bar>"
    and e: "exp (- (1 / 2) :: real) =
      (\<Sum>m<8. (- (1 / 2)) ^ m / fact m) + (exp t / fact 8) * (- (1 / 2)) ^ 8"
    using Maclaurin_exp_le [of "- (1 / 2)" 8] by blast
  have s: "(\<Sum>m<8. (- (1 / 2) :: real) ^ m / fact m) = 391285 / 645120"
    by (simp add: eval_nat_numeral fact_numeral)
  have "exp t \<le> exp 1" using t by simp
  then have u: "exp t \<le> 3" using exp_le by linarith
  have l: "0 < exp t" by simp
  have f: "fact 8 = (40320 :: real)" by (simp add: eval_nat_numeral)
  have p: "(- (1 / 2) :: real) ^ 8 = 1 / 256" by (simp add: power_divide)
  have v: "exp (- (1 / 2) :: real) = 391285 / 645120 + exp t / 10321920" using e s f p by simp
  show "606530 / 1000000 < exp (- (1 / 2) :: real)" using v l by linarith
  show "exp (- (1 / 2) :: real) < 606531 / 1000000" using v u by linarith
qed

lemma exp_minus_nat: "exp (- real n) = exp (- 1 :: real) ^ n"
  using exp_of_nat_mult [of n "- 1 :: real"] by simp

lemma exp_minus_five_bounds:
  "6737 / 1000000 < exp (- 5 :: real)" "exp (- 5 :: real) < 6738 / 1000000"
proof -
  have e: "exp (- 5 :: real) = exp (- 1) ^ 5" using exp_minus_nat [of 5] by simp
  have "(367879 / 1000000 :: real) ^ 5 < exp (- 1) ^ 5"
    using exp_minus_one_bounds(1) by (intro power_strict_mono) simp_all
  moreover have "(6737 / 1000000 :: real) < (367879 / 1000000) ^ 5" by (simp add: power_divide)
  ultimately show "6737 / 1000000 < exp (- 5 :: real)" using e by linarith
  have "exp (- 1 :: real) ^ 5 < (367880 / 1000000) ^ 5"
    using exp_minus_one_bounds(2) by (intro power_strict_mono) simp_all
  moreover have "(367880 / 1000000 :: real) ^ 5 < 6738 / 1000000" by (simp add: power_divide)
  ultimately show "exp (- 5 :: real) < 6738 / 1000000" using e by linarith
qed

lemma exp_minus_ten_bounds:
  "45399 / 1000000000 < exp (- 10 :: real)" "exp (- 10 :: real) < 45401 / 1000000000"
proof -
  have e: "exp (- 10 :: real) = exp (- 1) ^ 10" using exp_minus_nat [of 10] by simp
  have "(367879 / 1000000 :: real) ^ 10 < exp (- 1) ^ 10"
    using exp_minus_one_bounds(1) by (intro power_strict_mono) simp_all
  moreover have "(45399 / 1000000000 :: real) < (367879 / 1000000) ^ 10"
    by (simp add: power_divide)
  ultimately show "45399 / 1000000000 < exp (- 10 :: real)" using e by linarith
  have "exp (- 1 :: real) ^ 10 < (367880 / 1000000) ^ 10"
    using exp_minus_one_bounds(2) by (intro power_strict_mono) simp_all
  moreover have "(367880 / 1000000 :: real) ^ 10 < 45401 / 1000000000"
    by (simp add: power_divide)
  ultimately show "exp (- 10 :: real) < 45401 / 1000000000" using e by linarith
qed

section \<open>External attenuation\<close>

text \<open>
  Claim C2.  The external attenuation factor of an optical depth \<open>\<tau>\<close> is \<open>exp(-\<tau>)\<close>
  (so is every point of the curve the notebook plots),
  and at \<open>\<tau> = 0, 0.5, 1, 5, 10\<close> it is \<open>1\<close> exactly and \<open>0.6065\<close>, \<open>0.3679\<close>, \<open>0.0067\<close>,
  \<open>0.0000454\<close> to the precision these reference values are written with (half a unit
  of their last digit).
\<close>

theorem absorption_reference_values:
  "absorption tau = exp (- tau)
   \<and> external_curve = map (\<lambda>tau. exp (- tau)) taus
   \<and> absorption 0 = 1
   \<and> \<bar>absorption (1 / 2) - 6065 / 10000\<bar> < 5 / 100000
   \<and> \<bar>absorption 1 - 3679 / 10000\<bar> < 5 / 100000
   \<and> \<bar>absorption 5 - 67 / 10000\<bar> < 5 / 100000
   \<and> \<bar>absorption 10 - 454 / 10000000\<bar> < 5 / 100000000"
proof -
  have a: "\<bar>absorption (1 / 2) - 6065 / 10000\<bar> < 5 / 100000"
    unfolding absorption_def using exp_minus_half_bounds by linarith
  have b: "\<bar>absorption 1 - 3679 / 10000\<bar> < 5 / 100000"
    unfolding absorption_def using exp_minus_one_bounds by linarith
  have c: "\<bar>absorption 5 - 67 / 10000\<bar> < 5 / 100000"
    unfolding absorption_def using exp_minus_five_bounds by linarith
  have d: "\<bar>absorption 10 - 454 / 10000000\<bar> < 5 / 100000000"
    unfolding absorption_def using exp_minus_ten_bounds by linarith
  have z: "absorption 0 = 1" by (simp add: absorption_def)
  have m: "external_curve = map (\<lambda>tau. exp (- tau)) taus"
    by (simp add: external_curve_def absorption_def)
  show ?thesis using a b c d z m by (simp add: absorption_def)
qed

section \<open>Several external fields\<close>

lemma absorption_add: "absorption (x + y) = absorption x * absorption y"
  using exp_add [of "- x" "- y"] by (simp add: absorption_def)

lemma absorption_sum_list: "absorption (sum_list ts) = prod_list (map absorption ts)"
proof (induction ts)
  case Nil
  show ?case by (simp add: absorption_def)
next
  case (Cons t ts)
  then show ?case by (simp add: absorption_add)
qed

lemma np_multiply_absorption:
  "np_multiply (map absorption xs) (map absorption ys)
   = map_sum id (map absorption) (np_add xs ys)"
proof -
  have z: "length xs = length ys \<Longrightarrow>
      map2 (*) (map absorption xs) (map absorption ys) = map absorption (map2 (+) xs ys)"
    by (induction xs ys rule: list_induct2) (simp_all add: absorption_add)
  have l: "length xs = 1 \<Longrightarrow> hd (map absorption xs) = absorption (hd xs)"
    by (cases xs) simp_all
  have r: "length ys = 1 \<Longrightarrow> hd (map absorption ys) = absorption (hd ys)"
    by (cases ys) simp_all
  show ?thesis
    unfolding np_multiply_def np_add_def np_broadcast_def
    using z l r by (simp add: absorption_add)
qed

lemma multiply_all_absorption:
  "multiply_all (map absorption acc) (map (map absorption) ts)
   = map_sum id (map absorption) (add_all acc ts)"
proof (induction ts arbitrary: acc)
  case Nil
  show ?case by simp
next
  case (Cons t ts)
  show ?case
  proof (cases "np_add acc t")
    case (Inl e)
    then show ?thesis using np_multiply_absorption [of acc t] by simp
  next
    case (Inr s)
    then show ?thesis using np_multiply_absorption [of acc t] Cons.IH [of s] by simp
  qed
qed

text \<open>
  Claim C4.  For any number of external photon fields, multiplying the per-field
  attenuation arrays \<open>exp(-\<tau>\<^sub>i)\<close> gives, at every frequency of the grid, the attenuation
  \<open>exp(-\<tau>)\<close> of the summed opacity array (and the two chains fail together when the
  arrays do not broadcast); for the optical depths at one frequency,
  \<open>exp(-(\<tau>\<^sub>1 + ... + \<tau>\<^sub>n)) = exp(-\<tau>\<^sub>1) * ... * exp(-\<tau>\<^sub>n)\<close>.
\<close>

theorem external_fields_combine:
  "abs_ext tau_first tau_rest = map_sum id (map absorption) (tau_ext tau_first tau_rest)
   \<and> absorption (sum_list ts) = prod_list (map absorption ts)"
  unfolding abs_ext_def tau_ext_def
  by (simp add: multiply_all_absorption absorption_sum_list)

section \<open>Rounding to binary64\<close>

lemma rne_error: "\<bar>of_int (rne x) - x\<bar> \<le> 1 / 2"
  unfolding rne_def Let_def by (auto simp: abs_le_iff; linarith)

lemma rne_near:
  assumes "of_int n - 1 / 2 < x" "x < of_int n + 1 / 2"
  shows "rne x = n"
proof -
  have "\<bar>of_int (rne x) - x\<bar> \<le> 1 / 2" by (rule rne_error)
  then have "\<bar>(of_int (rne x) :: real) - of_int n\<bar> < 1" using assms by linarith
  then have "\<bar>of_int (rne x - n) :: real\<bar> < 1" by simp
  then have "\<bar>rne x - n\<bar> < 1" by (metis of_int_abs of_int_less_1_iff)
  then show ?thesis by linarith
qed

lemma rne_of_int: "rne (of_int n) = n"
  by (rule rne_near) simp_all

lemma float64_zero: "float64 0 = Inr 0"
  by (simp add: float64_def)

lemma two_powr_minus: "2 powr (- real n) = 1 / (2 :: real) ^ n"
  using powr_realpow [of "2 :: real" n] by (simp add: powr_minus inverse_eq_divide)

lemma quantum_bound:
  assumes "x \<noteq> 0"
  shows "2 powr real_of_int (ulp_exponent x) \<le> max (\<bar>x\<bar> / 2 ^ 52) (1 / 2 ^ 1074)"
proof -
  let ?e = "\<lfloor>log 2 \<bar>x\<bar>\<rfloor>"
  have x: "0 < \<bar>x\<bar>" using assms by simp
  have le: "2 powr real_of_int ?e \<le> \<bar>x\<bar>"
    using floor_log_eq_powr_iff [of "\<bar>x\<bar>" 2 ?e] x by simp
  show ?thesis
  proof (cases "- 1022 \<le> ?e")
    case True
    then have "ulp_exponent x = ?e - 52" by (simp add: ulp_exponent_def)
    then have "2 powr real_of_int (ulp_exponent x) = 2 powr real_of_int ?e / 2 powr 52"
      by (simp add: powr_diff)
    also have "\<dots> = 2 powr real_of_int ?e / 2 ^ 52"
      using powr_realpow [of "2 :: real" 52] by simp
    also have "\<dots> \<le> \<bar>x\<bar> / 2 ^ 52" using le by (simp add: divide_right_mono)
    finally show ?thesis by simp
  next
    case False
    then have "ulp_exponent x = - 1074" by (simp add: ulp_exponent_def)
    then have "2 powr real_of_int (ulp_exponent x) = 2 powr (- real (1074 :: nat))" by simp
    also have "\<dots> = 1 / 2 ^ 1074" by (rule two_powr_minus)
    finally show ?thesis by simp
  qed
qed

lemma round_error:
  assumes "x \<noteq> 0"
  defines "q \<equiv> 2 powr real_of_int (ulp_exponent x)"
  shows "\<bar>of_int (rne (x / q)) * q - x\<bar> \<le> q / 2"
proof -
  have q: "0 < q" by (simp add: q_def)
  have "\<bar>of_int (rne (x / q)) - x / q\<bar> \<le> 1 / 2" by (rule rne_error)
  then have "\<bar>of_int (rne (x / q)) - x / q\<bar> * q \<le> 1 / 2 * q"
    using q by (intro mult_right_mono) simp_all
  moreover have "(of_int (rne (x / q)) - x / q) * q = of_int (rne (x / q)) * q - x"
    using q by (simp add: left_diff_distrib)
  then have "\<bar>of_int (rne (x / q)) - x / q\<bar> * q = \<bar>of_int (rne (x / q)) * q - x\<bar>"
    using q by (metis abs_mult abs_of_pos)
  ultimately show ?thesis by simp
qed

lemma float64_error:
  assumes "\<bar>x\<bar> \<le> 2 ^ 1000"
  shows "\<exists>r. float64 x = Inr r \<and> \<bar>r - x\<bar> \<le> max (\<bar>x\<bar> / 2 ^ 53) (1 / 2 ^ 1075)"
proof (cases "x = 0")
  case True
  then show ?thesis by (simp add: float64_zero)
next
  case False
  define q where "q = 2 powr real_of_int (ulp_exponent x)"
  define r where "r = of_int (rne (x / q)) * q"
  define t :: real where "t = 1 / 2 ^ 1074"
  define b :: real where "b = 2 ^ 1024"
  have t: "0 < t" "t \<le> 1" by (simp_all add: t_def divide_le_eq)
  have t2: "1 / (2 :: real) ^ 1075 = t / 2" by (simp add: t_def)
  have e: "\<bar>r - x\<bar> \<le> q / 2" unfolding r_def q_def using round_error [OF False] .
  have "q \<le> max (\<bar>x\<bar> / 2 ^ 52) t"
    unfolding q_def t_def using quantum_bound [OF False] .
  then have "q / 2 \<le> max (\<bar>x\<bar> / 2 ^ 52 / 2) (t / 2)" by (auto simp: max_def)
  moreover have "\<bar>x\<bar> / 2 ^ 52 / 2 = \<bar>x\<bar> / 2 ^ 53" by simp
  ultimately have m: "\<bar>r - x\<bar> \<le> max (\<bar>x\<bar> / 2 ^ 53) (t / 2)" using e by simp
  have "\<bar>x\<bar> / 2 ^ 53 \<le> \<bar>x\<bar>" by (simp add: divide_le_eq)
  then have "max (\<bar>x\<bar> / 2 ^ 53) (t / 2) \<le> \<bar>x\<bar> + 1" using t by (auto simp: max_def)
  then have "\<bar>r\<bar> \<le> 2 * \<bar>x\<bar> + 1" using m by linarith
  also have "\<dots> \<le> 2 * 2 ^ 1000 + 1" using assms by simp
  also have "\<dots> < b" by (simp add: b_def)
  finally have "\<not> b \<le> \<bar>r\<bar>" by simp
  then have "float64 x = Inr r"
    using False unfolding float64_def Let_def q_def r_def b_def by simp
  then show ?thesis using m t2 by auto
qed

lemma float64_finite:
  assumes "\<bar>x\<bar> \<le> 2 ^ 1000"
  shows "\<exists>r. float64 x = Inr r \<and> \<bar>r\<bar> \<le> 2 * \<bar>x\<bar> + 1"
proof -
  obtain r where r: "float64 x = Inr r" "\<bar>r - x\<bar> \<le> max (\<bar>x\<bar> / 2 ^ 53) (1 / 2 ^ 1075)"
    using float64_error [OF assms] by blast
  have "\<bar>x\<bar> / 2 ^ 53 \<le> \<bar>x\<bar>" by (simp add: divide_le_eq)
  moreover have "(1 :: real) / 2 ^ 1075 \<le> 1" by (simp add: divide_le_eq)
  ultimately have "max (\<bar>x\<bar> / 2 ^ 53) (1 / 2 ^ 1075) \<le> \<bar>x\<bar> + 1" by (auto simp: max_def)
  then have "\<bar>r\<bar> \<le> 2 * \<bar>x\<bar> + 1" using r(2) by linarith
  then show ?thesis using r(1) by blast
qed


lemma float64_one: "float64 1 = Inr 1"
proof -
  have "\<lfloor>log 2 (1 :: real)\<rfloor> = 0" by simp
  then have u: "ulp_exponent 1 = - 52" by (simp add: ulp_exponent_def)
  have q: "2 powr (- 52 :: real) = 1 / 2 ^ 52" using two_powr_minus [of 52] by simp
  have r: "rne (2 ^ 52) = 2 ^ 52" using rne_of_int [of "2 ^ 52"] by simp
  have "of_int (rne (1 / (1 / 2 ^ 52))) * (1 / 2 ^ 52) = (1 :: real)" using r by simp
  moreover have "\<not> (2 :: real) ^ 1024 \<le> \<bar>1\<bar>" by simp
  ultimately show ?thesis unfolding float64_def Let_def u by (simp add: q)
qed

lemma float64_below_one:
  assumes "1 - 1 / 2 ^ 54 < x" "x \<le> 1"
  shows "float64 x = Inr 1"
proof (cases "x = 1")
  case True
  then show ?thesis by (simp add: float64_one)
next
  case False
  have "(1 :: real) / 2 \<le> 1 - 1 / 2 ^ 54" by simp
  then have x: "x < 1" "1 / 2 \<le> x" "0 < x" using assms False by linarith+
  have p: "2 powr real_of_int (- 1) = (1 / 2 :: real)" by (simp add: powr_minus inverse_eq_divide)
  have "\<lfloor>log 2 \<bar>x\<bar>\<rfloor> = - 1"
    using floor_log_eq_powr_iff [of x 2 "- 1"] x p by simp
  then have u: "ulp_exponent x = - 53" by (simp add: ulp_exponent_def)
  have q: "2 powr (- 53 :: real) = 1 / 2 ^ 53" using two_powr_minus [of 53] by simp
  have r: "rne (x * 2 ^ 53) = 2 ^ 53"
  proof (rule rne_near)
    show "of_int (2 ^ 53) - 1 / 2 < x * 2 ^ 53" using assms(1) by (simp add: field_simps)
    show "x * 2 ^ 53 < of_int (2 ^ 53) + 1 / 2" using x(1) by simp
  qed
  have "of_int (rne (x / (1 / 2 ^ 53))) * (1 / 2 ^ 53) = (1 :: real)" using r by simp
  moreover have "\<not> (2 :: real) ^ 1024 \<le> \<bar>1\<bar>" by simp
  ultimately show ?thesis using x(3) unfolding float64_def Let_def u by (simp add: q)
qed


section \<open>Internal attenuation: the exact factor\<close>









section \<open>Internal attenuation: the float expression\<close>

lemma absorption_homogeneous_zero: "absorption_homogeneous 0 = Inl InvalidValue"
  by (simp add: absorption_homogeneous_def np_exp_def np_subtract_def np_true_divide_def
      float64_one float64_zero)

lemma exp_minus_lower: "0 < (tau :: real) \<Longrightarrow> 1 - tau \<le> exp (- tau)"
  using exp_ge_add_one_self [of "- tau"] by simp

lemma np_exp_cancels:
  assumes "0 < tau" "tau < 1 / 2 ^ 54"
  shows "np_exp (- tau) = Inr 1"
proof -
  have "1 - 1 / 2 ^ 54 < exp (- tau)" using exp_minus_lower [OF assms(1)] assms(2) by linarith
  moreover have "exp (- tau) \<le> 1" using assms(1) by simp
  ultimately show ?thesis unfolding np_exp_def by (rule float64_below_one)
qed


lemma absorption_homogeneous_finite:
  assumes "0 < tau"
  shows "\<exists>y d v. np_exp (- tau) = Inr y \<and> np_subtract 1 y = Inr d
           \<and> float64 (d / tau) = Inr v \<and> absorption_homogeneous tau = Inr v"
proof (cases "tau < 1 / 2 ^ 54")
  case True
  then show ?thesis using np_exp_cancels [OF assms True] assms
    by (simp add: absorption_homogeneous_def np_subtract_def np_true_divide_def float64_zero)
next
  case False
  have one: "(1 :: real) \<le> 2 ^ 1000" by (rule one_le_power) simp
  have e: "\<bar>exp (- tau)\<bar> \<le> 1" using assms by simp
  then have "\<bar>exp (- tau)\<bar> \<le> 2 ^ 1000" using one by linarith
  then obtain y where y: "float64 (exp (- tau)) = Inr y" "\<bar>y\<bar> \<le> 2 * \<bar>exp (- tau)\<bar> + 1"
    using float64_finite by blast
  have yb: "\<bar>1 - y\<bar> \<le> 4" using y(2) e by linarith
  have four: "(4 :: real) \<le> 2 ^ 1000"
    using power_increasing [of 2 1000 "2 :: real"] by simp
  obtain d where d: "float64 (1 - y) = Inr d" "\<bar>d\<bar> \<le> 2 * \<bar>1 - y\<bar> + 1"
    using float64_finite [of "1 - y"] yb four by fastforce
  have "2 * \<bar>1 - y\<bar> + 1 \<le> 9" using yb by simp
  then have db: "\<bar>d\<bar> \<le> 9" using d(2) by (rule order_trans [rotated])
  have "\<bar>d / tau\<bar> = \<bar>d\<bar> / tau" using assms by simp
  also have "\<dots> \<le> 9 / tau" using db assms by (simp add: divide_right_mono)
  also have "\<dots> \<le> 9 / (1 / 2 ^ 54)" using False assms by (intro divide_left_mono) simp_all
  also have "\<dots> = 9 * 2 ^ 54" by simp
  also have "\<dots> \<le> 2 ^ 4 * 2 ^ 54" by simp
  also have "\<dots> = (2 :: real) ^ 58" by simp
  also have "\<dots> \<le> 2 ^ 1000" by (intro power_increasing) simp_all
  finally obtain v where v: "float64 (d / tau) = Inr v" using float64_finite by blast
  show ?thesis using y(1) d(1) v assms
    by (simp add: absorption_homogeneous_def np_exp_def np_subtract_def np_true_divide_def)
qed






text \<open>
  Claim C1, as the spec states it, asks for the limit value \<open>1\<close> at \<open>\<tau> = 0\<close>.  The
  expression has no case for \<open>\<tau> = 0\<close>: there it divides \<open>0\<close> by \<open>0\<close>, which is numpy's
  invalid value (\<open>nan\<close>), not \<open>1\<close>.
\<close>

theorem absorption_homogeneous_zero_counterexample:
  "absorption_homogeneous 0 = Inl InvalidValue \<and> absorption_homogeneous 0 \<noteq> Inr 1"
  by (simp add: absorption_homogeneous_zero)

text \<open>
  Claim C1, amended.  For every optical depth \<open>\<tau> > 0\<close> the internal attenuation
  evaluates \<open>(1 - exp(-\<tau>)) / \<tau>\<close> in floats (the exponential, the subtraction and the
  division by the non-zero \<open>\<tau>\<close>, each rounded) and returns a number: for \<open>\<tau> > 0\<close> the
  division by zero is not reached.  So every element of the internal attenuation of an
  array of positive optical depths is a number.
\<close>

theorem absorption_homogeneous_positive_depth:
  "(\<forall>tau > 0. \<exists>y d v. np_exp (- tau) = Inr y \<and> np_subtract 1 y = Inr d
        \<and> float64 (d / tau) = Inr v \<and> absorption_homogeneous tau = Inr v)
   \<and> (\<forall>tau_synch. (\<forall>tau \<in> set tau_synch. 0 < tau)
        \<longrightarrow> (\<forall>r \<in> set (abs_int tau_synch). \<exists>v. r = Inr v))"
proof -
  have a: "\<forall>tau > 0. \<exists>y d v. np_exp (- tau) = Inr y \<and> np_subtract 1 y = Inr d
        \<and> float64 (d / tau) = Inr v \<and> absorption_homogeneous tau = Inr v"
    using absorption_homogeneous_finite by blast
  have b: "\<forall>tau_synch. (\<forall>tau \<in> set tau_synch. 0 < tau)
        \<longrightarrow> (\<forall>r \<in> set (abs_int tau_synch). \<exists>v. r = Inr v)"
  proof (intro allI impI ballI)
    fix tau_synch r
    assume p: "\<forall>tau \<in> set tau_synch. 0 < tau" and r: "r \<in> set (abs_int tau_synch)"
    from r obtain tau where "tau \<in> set tau_synch" "r = absorption_homogeneous tau"
      by (auto simp: abs_int_def)
    then show "\<exists>v. r = Inr v" using p absorption_homogeneous_finite [of tau] by blast
  qed
  show ?thesis using a b by blast
qed

theorem absorption_homogeneous_positive_depth_witness:
  "(0 :: real) < 1 \<and> (\<exists>v. absorption_homogeneous 1 = Inr v)
   \<and> (0 :: real) < 2 \<and> (\<exists>v. abs_int [1, 2] ! 1 = Inr v)"
proof -
  have a: "(0 :: real) < 1" and b: "(0 :: real) < 2" by simp_all
  note t = absorption_homogeneous_positive_depth
  from t a have c: "\<exists>v. absorption_homogeneous 1 = Inr v" by blast
  have p: "\<forall>tau \<in> set [1, 2 :: real]. 0 < tau" by simp
  have m: "abs_int [1, 2] ! 1 \<in> set (abs_int [1, 2])" by (simp add: abs_int_def)
  from t p m have "\<exists>v. abs_int [1, 2] ! 1 = Inr v" by blast
  then show ?thesis using a b c by blast
qed

section \<open>Lookups in the table of lines\<close>

lemma getitem_known:
  "lines_dictionary name = Some entry \<Longrightarrow>
   getitem name lines_dictionary = (Inr entry, lines_dictionary)"
  by (simp add: getitem_def)

lemma getitem_unknown:
  "lines_dictionary name = None \<Longrightarrow>
   getitem name lines_dictionary = (Inl (KeyError name), lines_dictionary)"
  by (simp add: getitem_def)

lemma getitem_table: "snd (getitem name lines_dictionary) = lines_dictionary"
  by (simp add: getitem_def)

lemma SphericalShellBLR_table:
  "snd (SphericalShellBLR L xi name R lines_dictionary) = lines_dictionary"
  by (simp add: SphericalShellBLR_def getitem_def split: option.splits)

lemma SphericalShellBLR_unknown:
  "lines_dictionary name = None \<Longrightarrow>
   SphericalShellBLR L xi name R lines_dictionary = (Inl (KeyError name), lines_dictionary)"
  by (simp add: SphericalShellBLR_def getitem_def)

lemma shell_from_H_beta_table:
  "snd (shell_from_H_beta L R name lines_dictionary) = lines_dictionary"
  by (simp add: shell_from_H_beta_def getitem_def SphericalShellBLR_def split: option.splits)

lemma shell_from_H_beta_unknown:
  "lines_dictionary name = None \<Longrightarrow>
   shell_from_H_beta L R name lines_dictionary = (Inl (KeyError name), lines_dictionary)"
  by (simp add: shell_from_H_beta_def getitem_def)

text \<open>
  Claim C8.  Looking a line name up in the shared table returns the entry (wavelength,
  radius ratio, luminosity ratio) stored under a known name and fails with the lookup
  error KeyError for a name the table does not hold; constructing a line region with
  an unknown name, directly or by scaling the \<open>H\<beta>\<close> shell, fails with that error; and
  each of the three operations hands the table back as it received it.
\<close>

theorem lines_dictionary_lookup:
  "(\<forall>entry. lines_dictionary name = Some entry \<longrightarrow>
      getitem name lines_dictionary = (Inr entry, lines_dictionary))
   \<and> (lines_dictionary name = None \<longrightarrow>
      getitem name lines_dictionary = (Inl (KeyError name), lines_dictionary)
      \<and> SphericalShellBLR L xi name R lines_dictionary = (Inl (KeyError name), lines_dictionary)
      \<and> shell_from_H_beta L_H_beta R_H_beta name lines_dictionary
          = (Inl (KeyError name), lines_dictionary))
   \<and> snd (getitem name lines_dictionary) = lines_dictionary
   \<and> snd (SphericalShellBLR L xi name R lines_dictionary) = lines_dictionary
   \<and> snd (shell_from_H_beta L_H_beta R_H_beta name lines_dictionary) = lines_dictionary"
  by (simp add: getitem_known getitem_unknown SphericalShellBLR_unknown
      shell_from_H_beta_unknown getitem_table SphericalShellBLR_table shell_from_H_beta_table)

theorem lines_dictionary_lookup_witness:
  "example_lines ''Hbeta'' = Some \<lparr>wavelength = 4861, R_Hbeta_ratio = 1, L_Hbeta_ratio = 1\<rparr>
   \<and> getitem ''Hbeta'' example_lines
       = (Inr \<lparr>wavelength = 4861, R_Hbeta_ratio = 1, L_Hbeta_ratio = 1\<rparr>, example_lines)
   \<and> example_lines ''Hgamma'' = None
   \<and> getitem ''Hgamma'' example_lines = (Inl (KeyError ''Hgamma''), example_lines)
   \<and> SphericalShellBLR 1 1 ''Hgamma'' 1 example_lines
       = (Inl (KeyError ''Hgamma''), example_lines)"
proof -
  have k: "example_lines ''Hbeta''
      = Some \<lparr>wavelength = 4861, R_Hbeta_ratio = 1, L_Hbeta_ratio = 1\<rparr>"
    by (simp add: example_lines_def)
  have u: "example_lines ''Hgamma'' = None" by (simp add: example_lines_def)
  have a: "getitem ''Hbeta'' example_lines
       = (Inr \<lparr>wavelength = 4861, R_Hbeta_ratio = 1, L_Hbeta_ratio = 1\<rparr>, example_lines)"
    using k lines_dictionary_lookup [of example_lines "''Hbeta''"] by simp
  have b: "getitem ''Hgamma'' example_lines = (Inl (KeyError ''Hgamma''), example_lines)"
    using u lines_dictionary_lookup [of example_lines "''Hgamma''" 1 1 1 1 1] by simp
  have c: "SphericalShellBLR 1 1 ''Hgamma'' 1 example_lines
       = (Inl (KeyError ''Hgamma''), example_lines)"
    using u lines_dictionary_lookup [of example_lines "''Hgamma''" 1 1 1 1 1] by simp
  show ?thesis using k u a b c by simp
qed

section \<open>Evaluating a particle distribution\<close>

text \<open>
  Claim C5.  Whatever analytic form the variant of a distribution selects, evaluating
  the distribution on a sequence of Lorentz factors returns one density per element:
  the value of the form where the element lies in \<open>[\<gamma>_min, \<gamma>_max]\<close>, and exactly zero
  where it is strictly below \<open>\<gamma>_min\<close> or strictly above \<open>\<gamma>_max\<close>.
\<close>

theorem evaluate_heaviside:
  "length (evaluate n gammas) = length gammas
   \<and> (\<forall>i < length gammas.
        (gamma_min n \<le> gammas ! i \<and> gammas ! i \<le> gamma_max n
           \<longrightarrow> evaluate n gammas ! i = form n (gammas ! i))
      \<and> (gammas ! i < gamma_min n \<or> gamma_max n < gammas ! i
           \<longrightarrow> evaluate n gammas ! i = 0))"
  by (auto simp: evaluate_def)

theorem evaluate_heaviside_witness:
  "evaluate (PowerLaw 3 2 10 100 1) [1, 10, 1000] = [0, 3 * 10 powr (- 2), 0]"
proof -
  let ?n = "PowerLaw 3 2 10 100 1" and ?g = "[1, 10, 1000 :: real]"
  note t = evaluate_heaviside [of ?n ?g]
  have l: "length (evaluate ?n ?g) = 3" using t by simp
  have a: "evaluate ?n ?g ! 0 = 0" using t by (simp add: PowerLaw_def)
  have b: "evaluate ?n ?g ! 1 = 3 * 10 powr (- 2)" using t by (simp add: PowerLaw_def)
  have c: "evaluate ?n ?g ! 2 = 0" using t by (simp add: PowerLaw_def)
  show ?thesis using l a b c
    by (intro nth_equalityI) (auto simp: less_Suc_eq numeral_3_eq_3 numeral_2_eq_2)
qed

section \<open>Alternate normalisations\<close>

















end
